theory Spec2Isabelle
  imports Complex_Main
begin

section \<open>The Python values that reach \<open>drawsvg/defs.py\<close>\<close>

text \<open>
  The constructors of \<open>defs.py\<close> are duck typed: a coordinate is whatever the caller
  hands over. The model covers \<open>None\<close>, \<open>bool\<close>, \<open>int\<close> (unbounded), \<open>float\<close> and
  \<open>str\<close>. The carrier \<open>'f\<close> of the floats and the float arithmetic of the host are
  parameters (a \<open>float_ops\<close> record): the module never looks inside a float, it only
  hands floats to \<open>-\<close>, \<open>*\<close>, \<open>==\<close>, \<open>float()\<close> and \<open>str.format\<close>.

  Outside the model: objects with their own \<open>__rsub__\<close>, \<open>__eq__\<close> or \<open>__format__\<close>
  (Decimal, Fraction, complex, arrays), and the interpreter's limit on the number of
  digits of an \<open>int\<close> that \<open>str\<close> will print.
\<close>

datatype 'f pyval = PyNone | PyBool bool | PyInt int | PyFloat 'f | PyStr string

datatype error = TypeError | OverflowError | ValueError

record 'f float_ops =
  f_of_int :: "int \<Rightarrow> 'f option"      \<comment> \<open>\<open>float(n)\<close>; \<open>None\<close> is OverflowError\<close>
  f_of_str :: "string \<Rightarrow> 'f option"   \<comment> \<open>\<open>float(s)\<close>; \<open>None\<close> is ValueError\<close>
  f_sub :: "'f \<Rightarrow> 'f \<Rightarrow> 'f"
  f_mul :: "'f \<Rightarrow> 'f \<Rightarrow> 'f"
  f_neg :: "'f \<Rightarrow> 'f"
  f_eq :: "'f \<Rightarrow> 'f \<Rightarrow> bool"
  f_eq_int :: "'f \<Rightarrow> int \<Rightarrow> bool"   \<comment> \<open>\<open>x == n\<close>, which Python decides exactly\<close>
  f_str :: "'f \<Rightarrow> string"            \<comment> \<open>\<open>str(x)\<close>\<close>

text \<open>The numeric tower: \<open>bool\<close> is a subclass of \<open>int\<close>, \<open>int\<close> widens to \<open>float\<close>.\<close>

datatype 'f num = I int | F 'f

fun as_num :: "'f pyval \<Rightarrow> 'f num option" where
  "as_num (PyBool b) = Some (I (if b then 1 else 0))"
| "as_num (PyInt n) = Some (I n)"
| "as_num (PyFloat x) = Some (F x)"
| "as_num PyNone = None"
| "as_num (PyStr s) = None"

fun to_float :: "'f float_ops \<Rightarrow> 'f num \<Rightarrow> error + 'f" where
  "to_float fo (I n) = (case f_of_int fo n of None \<Rightarrow> Inl OverflowError | Some x \<Rightarrow> Inr x)"
| "to_float fo (F x) = Inr x"

fun num_sub :: "'f float_ops \<Rightarrow> 'f num \<Rightarrow> 'f num \<Rightarrow> error + 'f pyval" where
  "num_sub fo (I m) (I n) = Inr (PyInt (m - n))"
| "num_sub fo a b =
     (case to_float fo a of Inl e \<Rightarrow> Inl e
      | Inr x \<Rightarrow> (case to_float fo b of Inl e \<Rightarrow> Inl e
                 | Inr y \<Rightarrow> Inr (PyFloat (f_sub fo x y))))"

fun num_mul :: "'f float_ops \<Rightarrow> 'f num \<Rightarrow> 'f num \<Rightarrow> error + 'f pyval" where
  "num_mul fo (I m) (I n) = Inr (PyInt (m * n))"
| "num_mul fo a b =
     (case to_float fo a of Inl e \<Rightarrow> Inl e
      | Inr x \<Rightarrow> (case to_float fo b of Inl e \<Rightarrow> Inl e
                 | Inr y \<Rightarrow> Inr (PyFloat (f_mul fo x y))))"

text \<open>\<open>a - b\<close>: defined between numbers, TypeError for \<open>None\<close> and \<open>str\<close> operands.\<close>

definition py_sub :: "'f float_ops \<Rightarrow> 'f pyval \<Rightarrow> 'f pyval \<Rightarrow> error + 'f pyval" where
  "py_sub fo a b =
     (case as_num a of None \<Rightarrow> Inl TypeError
      | Some x \<Rightarrow> (case as_num b of None \<Rightarrow> Inl TypeError | Some y \<Rightarrow> num_sub fo x y))"

text \<open>\<open>-a\<close>.\<close>

definition py_neg :: "'f float_ops \<Rightarrow> 'f pyval \<Rightarrow> error + 'f pyval" where
  "py_neg fo a =
     (case as_num a of None \<Rightarrow> Inl TypeError
      | Some (I n) \<Rightarrow> Inr (PyInt (- n))
      | Some (F x) \<Rightarrow> Inr (PyFloat (f_neg fo x)))"

text \<open>\<open>a * b\<close>: between numbers, and the repetition of a \<open>str\<close> by an \<open>int\<close>.\<close>

definition str_repeat :: "string \<Rightarrow> int \<Rightarrow> string" where
  "str_repeat s n = concat (replicate (nat n) s)"

definition py_mul :: "'f float_ops \<Rightarrow> 'f pyval \<Rightarrow> 'f pyval \<Rightarrow> error + 'f pyval" where
  "py_mul fo a b =
     (case (a, as_num a, b, as_num b) of
        (_, Some x, _, Some y) \<Rightarrow> num_mul fo x y
      | (PyStr s, _, _, Some (I n)) \<Rightarrow> Inr (PyStr (str_repeat s n))
      | (_, Some (I n), PyStr s, _) \<Rightarrow> Inr (PyStr (str_repeat s n))
      | _ \<Rightarrow> Inl TypeError)"

text \<open>\<open>float(a)\<close>.\<close>

definition py_float :: "'f float_ops \<Rightarrow> 'f pyval \<Rightarrow> error + 'f pyval" where
  "py_float fo a =
     (case a of
        PyNone \<Rightarrow> Inl TypeError
      | PyStr s \<Rightarrow> (case f_of_str fo s of None \<Rightarrow> Inl ValueError | Some x \<Rightarrow> Inr (PyFloat x))
      | _ \<Rightarrow> (case as_num a of None \<Rightarrow> Inl TypeError
              | Some x \<Rightarrow> (case to_float fo x of Inl e \<Rightarrow> Inl e | Inr y \<Rightarrow> Inr (PyFloat y))))"

text \<open>\<open>a == b\<close> and \<open>a != b\<close>: numbers compare by value across the tower.\<close>

fun num_eq :: "'f float_ops \<Rightarrow> 'f num \<Rightarrow> 'f num \<Rightarrow> bool" where
  "num_eq fo (I m) (I n) = (m = n)"
| "num_eq fo (I m) (F y) = f_eq_int fo y m"
| "num_eq fo (F x) (I n) = f_eq_int fo x n"
| "num_eq fo (F x) (F y) = f_eq fo x y"

definition py_eq :: "'f float_ops \<Rightarrow> 'f pyval \<Rightarrow> 'f pyval \<Rightarrow> bool" where
  "py_eq fo a b =
     (case (a, as_num a, b, as_num b) of
        (_, Some x, _, Some y) \<Rightarrow> num_eq fo x y
      | (PyNone, _, PyNone, _) \<Rightarrow> True
      | (PyStr s, _, PyStr t, _) \<Rightarrow> s = t
      | _ \<Rightarrow> False)"

definition py_ne :: "'f float_ops \<Rightarrow> 'f pyval \<Rightarrow> 'f pyval \<Rightarrow> bool" where
  "py_ne fo a b = (\<not> py_eq fo a b)"

text \<open>\<open>str(a)\<close>, which is also what a bare \<open>{}\<close> field of \<open>str.format\<close> prints.\<close>

definition digit_char :: "nat \<Rightarrow> char" where
  "digit_char d = ''0123456789'' ! (d mod 10)"

fun str_nat :: "nat \<Rightarrow> string" where
  "str_nat n = (if n < 10 then [digit_char n] else str_nat (n div 10) @ [digit_char (n mod 10)])"

declare str_nat.simps [simp del]

definition str_int :: "int \<Rightarrow> string" where
  "str_int i = (if i < 0 then CHR ''-'' # str_nat (nat (- i)) else str_nat (nat i))"

fun py_str :: "'f float_ops \<Rightarrow> 'f pyval \<Rightarrow> string" where
  "py_str fo PyNone = ''None''"
| "py_str fo (PyBool b) = (if b then ''True'' else ''False'')"
| "py_str fo (PyInt n) = str_int n"
| "py_str fo (PyFloat x) = f_str fo x"
| "py_str fo (PyStr s) = s"

text \<open>\<open>'{} {} {} {}'.format(a, b, c, d)\<close>.\<close>

definition format4 :: "'f float_ops \<Rightarrow> 'f pyval \<Rightarrow> 'f pyval \<Rightarrow> 'f pyval \<Rightarrow> 'f pyval \<Rightarrow> string" where
  "format4 fo a b c d =
     py_str fo a @ '' '' @ py_str fo b @ '' '' @ py_str fo c @ '' '' @ py_str fo d"


section \<open>Elements, the store and the base class\<close>

text \<open>
  The classes of \<open>defs.py\<close> and the two capability classes they derive from, as the
  \<open>class C(Base)\<close> headers declare them.
\<close>

datatype cls =
  LinearGradient | RadialGradient | GradientStop | ClipPath | Mask | Filter | FilterItem | Marker

datatype capability = DrawingDef | DrawingDefSub

fun base_of :: "cls \<Rightarrow> capability" where
  "base_of LinearGradient = DrawingDef"
| "base_of RadialGradient = DrawingDef"
| "base_of GradientStop = DrawingDefSub"
| "base_of ClipPath = DrawingDef"
| "base_of Mask = DrawingDef"
| "base_of Filter = DrawingDef"
| "base_of FilterItem = DrawingDefSub"
| "base_of Marker = DrawingDef"

text \<open>
  The class attribute \<open>TAG_NAME\<close>; \<open>FilterItem\<close> declares none and inherits the one of
  the base element class, which lives in \<open>elements.py\<close>.
\<close>

fun class_TAG_NAME :: "cls \<Rightarrow> string option" where
  "class_TAG_NAME LinearGradient = Some ''linearGradient''"
| "class_TAG_NAME RadialGradient = Some ''radialGradient''"
| "class_TAG_NAME GradientStop = Some ''stop''"
| "class_TAG_NAME ClipPath = Some ''clipPath''"
| "class_TAG_NAME Mask = Some ''mask''"
| "class_TAG_NAME Filter = Some ''filter''"
| "class_TAG_NAME FilterItem = None"
| "class_TAG_NAME Marker = Some ''marker''"

text \<open>
  Objects live in a store and are named by their address, so that "the same object" is
  equality of addresses. An element holds its class, the instance attribute \<open>TAG_NAME\<close>
  when one has been assigned, its attribute dictionary (insertion ordered, as Python's
  \<open>dict\<close>) and the addresses of its children, in order.
\<close>

type_synonym addr = nat

type_synonym 'f kwargs = "(string \<times> 'f pyval) list"

record 'f element =
  cls_of :: cls
  inst_TAG_NAME :: "'f pyval option"
  args :: "'f kwargs"
  children :: "addr list"

type_synonym 'f store = "'f element list"

definition lookup :: "'f store \<Rightarrow> addr \<Rightarrow> 'f element option" where
  "lookup h a = (if a < length h then Some (h ! a) else None)"

text \<open>\<open>self.args[k]\<close> of the element at an address; \<open>None\<close> when the key is not there.\<close>

definition attr :: "'f store \<Rightarrow> addr \<Rightarrow> string \<Rightarrow> 'f pyval option" where
  "attr h a k = (case lookup h a of None \<Rightarrow> None | Some e \<Rightarrow> map_of (args e) k)"

definition children_of :: "'f store \<Rightarrow> addr \<Rightarrow> addr list" where
  "children_of h a = (case lookup h a of None \<Rightarrow> [] | Some e \<Rightarrow> children e)"

text \<open>
  Attribute lookup \<open>self.TAG_NAME\<close>: the instance attribute if assigned, else the class
  attribute, else the one inherited from \<open>elements.py\<close> (the parameter \<open>base_tag\<close>).
\<close>

definition TAG_NAME :: "'f pyval \<Rightarrow> 'f store \<Rightarrow> addr \<Rightarrow> 'f pyval option" where
  "TAG_NAME base_tag h a =
     (case lookup h a of None \<Rightarrow> None
      | Some e \<Rightarrow>
          (case inst_TAG_NAME e of Some t \<Rightarrow> Some t
           | None \<Rightarrow> (case class_TAG_NAME (cls_of e) of Some s \<Rightarrow> Some (PyStr s)
                      | None \<Rightarrow> Some base_tag)))"

text \<open>
  Modelled from the spec: the constructor of the base class \<open>DrawingParentElement\<close>
  (\<open>elements.py\<close> is not part of the sources). The spec gives an element "a mapping of
  attribute name to value (keys from constructor keyword arguments)" and "an ordered
  sequence of child Elements", empty until something is appended. The new object gets
  the next free address.
\<close>

definition DrawingParentElement_init :: "'f store \<Rightarrow> cls \<Rightarrow> 'f kwargs \<Rightarrow> addr \<times> 'f store" where
  "DrawingParentElement_init h c kw =
     (length h, h @ [\<lparr>cls_of = c, inst_TAG_NAME = None, args = kw, children = []\<rparr>])"

text \<open>
  Modelled from the spec: \<open>append\<close> of the base class ("ordered child-append"): the child
  becomes the last element of the parent's child sequence. \<open>self\<close> is a live object in
  every Python call; on an address outside the store the model changes nothing.
\<close>

definition append :: "'f store \<Rightarrow> addr \<Rightarrow> addr \<Rightarrow> 'f store" where
  "append h self child =
     (case lookup h self of None \<Rightarrow> h
      | Some e \<Rightarrow> h[self := e\<lparr>children := children e @ [child]\<rparr>])"

text \<open>
  A call \<open>f(k1=v1, ..., **kwargs)\<close>: Python raises TypeError when a key of \<open>kwargs\<close>
  repeats one of the keywords written out; otherwise the callee receives them all.
\<close>

definition call_kwargs :: "'f kwargs \<Rightarrow> 'f kwargs \<Rightarrow> error + 'f kwargs" where
  "call_kwargs named extra =
     (if list_ex (\<lambda>k. k \<in> set (map fst named)) (map fst extra) then Inl TypeError
      else Inr (named @ extra))"

text \<open>
  A dictionary display \<open>{k1: v1, ..., **kwargs}\<close>: the items of \<open>kwargs\<close> are stored one
  after the other; storing under a key that is present replaces its value in place, a
  new key goes to the end.
\<close>

fun setitem :: "'f kwargs \<Rightarrow> string \<Rightarrow> 'f pyval \<Rightarrow> 'f kwargs" where
  "setitem [] k v = [(k, v)]"
| "setitem ((k', v') # d) k v = (if k' = k then (k, v) # d else (k', v') # setitem d k v)"

fun dict_display :: "'f kwargs \<Rightarrow> 'f kwargs \<Rightarrow> 'f kwargs" where
  "dict_display d [] = d"
| "dict_display d ((k, v) # kw) = dict_display (setitem d k v) kw"

text \<open>An omitted argument takes the default of the signature.\<close>

definition arg_or :: "'a \<Rightarrow> 'a option \<Rightarrow> 'a" where
  "arg_or d a = (case a of None \<Rightarrow> d | Some v \<Rightarrow> v)"

section \<open>The methods of \<open>defs.py\<close>\<close>

text \<open>\<open>DrawingDef.get_svg_defs\<close>: \<open>return (self,)\<close>.\<close>

definition DrawingDef_get_svg_defs :: "addr \<Rightarrow> addr list" where
  "DrawingDef_get_svg_defs self = [self]"

text \<open>
  \<open>obj.get_svg_defs()\<close> resolves to \<open>DrawingDef\<close>'s method for the classes that derive from
  \<open>DrawingDef\<close>. \<open>DrawingDefSub\<close> defines none, so its classes run the method inherited
  from \<open>elements.py\<close>, a parameter here.
\<close>

definition get_svg_defs ::
  "('f store \<Rightarrow> addr \<Rightarrow> addr list) \<Rightarrow> 'f store \<Rightarrow> addr \<Rightarrow> addr list option" where
  "get_svg_defs inherited h self =
     (case lookup h self of None \<Rightarrow> None
      | Some e \<Rightarrow>
          (case base_of (cls_of e) of
             DrawingDef \<Rightarrow> Some (DrawingDef_get_svg_defs self)
           | DrawingDefSub \<Rightarrow> Some (inherited h self)))"

text \<open>
  The statement \<open>try: y = y_shift - y\<close> / \<open>except TypeError: pass\<close>: a TypeError leaves \<open>y\<close>
  as it was, any other exception leaves the constructor.
\<close>

definition try_shift :: "'f float_ops \<Rightarrow> 'f pyval \<Rightarrow> 'f pyval \<Rightarrow> error + 'f pyval" where
  "try_shift fo y_shift y =
     (case py_sub fo y_shift y of
        Inl TypeError \<Rightarrow> Inr y
      | Inl e \<Rightarrow> Inl e
      | Inr y' \<Rightarrow> Inr y')"

text \<open>The two lines that set \<open>y_shift\<close>.\<close>

definition y_shift_of :: "'f float_ops \<Rightarrow> 'f pyval \<Rightarrow> 'f pyval" where
  "y_shift_of fo gradientUnits =
     (if py_ne fo gradientUnits (PyStr ''userSpaceOnUse'') then PyInt 1 else PyInt 0)"

text \<open>\<open>LinearGradient.__init__(self, x1, y1, x2, y2, gradientUnits='userSpaceOnUse', **kwargs)\<close>.\<close>

definition LinearGradient_init ::
  "'f float_ops \<Rightarrow> 'f store \<Rightarrow> 'f pyval \<Rightarrow> 'f pyval \<Rightarrow> 'f pyval \<Rightarrow> 'f pyval \<Rightarrow>
   'f pyval option \<Rightarrow> 'f kwargs \<Rightarrow> error + addr \<times> 'f store" where
  "LinearGradient_init fo h x1 y1 x2 y2 gradientUnits kwargs =
     (let gradientUnits = arg_or (PyStr ''userSpaceOnUse'') gradientUnits;
          y_shift = y_shift_of fo gradientUnits
      in case try_shift fo y_shift y1 of Inl e \<Rightarrow> Inl e
         | Inr y1 \<Rightarrow>
        (case try_shift fo y_shift y2 of Inl e \<Rightarrow> Inl e
         | Inr y2 \<Rightarrow>
        (case call_kwargs [(''x1'', x1), (''y1'', y1), (''x2'', x2), (''y2'', y2),
                           (''gradientUnits'', gradientUnits)] kwargs of
           Inl e \<Rightarrow> Inl e
         | Inr kw \<Rightarrow> Inr (DrawingParentElement_init h LinearGradient kw))))"

text \<open>
  \<open>GradientStop\<close> has no constructor of its own: \<open>GradientStop(**kw)\<close> runs the inherited
  one.
\<close>

definition GradientStop_init :: "'f store \<Rightarrow> 'f kwargs \<Rightarrow> addr \<times> 'f store" where
  "GradientStop_init h kw = DrawingParentElement_init h GradientStop kw"

text \<open>\<open>LinearGradient.add_stop(self, offset, color, opacity=None, **kwargs)\<close>; the result
  is the value returned and the new store.\<close>

definition LinearGradient_add_stop ::
  "'f store \<Rightarrow> addr \<Rightarrow> 'f pyval \<Rightarrow> 'f pyval \<Rightarrow> 'f pyval option \<Rightarrow> 'f kwargs \<Rightarrow>
   error + addr option \<times> 'f store" where
  "LinearGradient_add_stop h self offset color opacity kwargs =
     (let opacity = arg_or PyNone opacity
      in case call_kwargs [(''offset'', offset), (''stop_color'', color),
                           (''stop_opacity'', opacity)] kwargs of
           Inl e \<Rightarrow> Inl e
         | Inr kw \<Rightarrow>
             (case GradientStop_init h kw of
                (stop, h1) \<Rightarrow> Inr (Some stop, append h1 self stop)))"

text \<open>\<open>RadialGradient.__init__(self, cx, cy, r, gradientUnits='userSpaceOnUse', fy=None,
  **kwargs)\<close>.\<close>

definition RadialGradient_init ::
  "'f float_ops \<Rightarrow> 'f store \<Rightarrow> 'f pyval \<Rightarrow> 'f pyval \<Rightarrow> 'f pyval \<Rightarrow>
   'f pyval option \<Rightarrow> 'f pyval option \<Rightarrow> 'f kwargs \<Rightarrow> error + addr \<times> 'f store" where
  "RadialGradient_init fo h cx cy r gradientUnits fy kwargs =
     (let gradientUnits = arg_or (PyStr ''userSpaceOnUse'') gradientUnits;
          fy = arg_or PyNone fy;
          y_shift = y_shift_of fo gradientUnits
      in case try_shift fo y_shift cy of Inl e \<Rightarrow> Inl e
         | Inr cy \<Rightarrow>
        (case try_shift fo y_shift fy of Inl e \<Rightarrow> Inl e
         | Inr fy \<Rightarrow>
        (case call_kwargs [(''cx'', cx), (''cy'', cy), (''r'', r),
                           (''gradientUnits'', gradientUnits), (''fy'', fy)] kwargs of
           Inl e \<Rightarrow> Inl e
         | Inr kw \<Rightarrow> Inr (DrawingParentElement_init h RadialGradient kw))))"

text \<open>\<open>RadialGradient.add_stop(self, offset, color, opacity=None, **kwargs)\<close>: no
  \<open>return\<close> statement, so the call evaluates to \<open>None\<close>.\<close>

definition RadialGradient_add_stop ::
  "'f store \<Rightarrow> addr \<Rightarrow> 'f pyval \<Rightarrow> 'f pyval \<Rightarrow> 'f pyval option \<Rightarrow> 'f kwargs \<Rightarrow>
   error + addr option \<times> 'f store" where
  "RadialGradient_add_stop h self offset color opacity kwargs =
     (let opacity = arg_or PyNone opacity
      in case call_kwargs [(''offset'', offset), (''stop_color'', color),
                           (''stop_opacity'', opacity)] kwargs of
           Inl e \<Rightarrow> Inl e
         | Inr kw \<Rightarrow>
             (case GradientStop_init h kw of
                (stop, h1) \<Rightarrow> Inr (None, append h1 self stop)))"

text \<open>\<open>FilterItem.__init__(self, tag_name, **args)\<close>: the inherited constructor, then the
  assignment \<open>self.TAG_NAME = tag_name\<close>.\<close>

definition FilterItem_init :: "'f store \<Rightarrow> 'f pyval \<Rightarrow> 'f kwargs \<Rightarrow> addr \<times> 'f store" where
  "FilterItem_init h tag_name kw =
     (case DrawingParentElement_init h FilterItem kw of
        (self, h1) \<Rightarrow>
          (self, (case lookup h1 self of None \<Rightarrow> h1
                  | Some e \<Rightarrow> h1[self := e\<lparr>inst_TAG_NAME := Some tag_name\<rparr>])))"

text \<open>\<open>Marker.__init__(self, minx, miny, maxx, maxy, scale=1, orient='auto', **kwargs)\<close>.
  \<open>marker_size\<close> is the expression \<open>width if scale == 1 else float(width) * scale\<close>.\<close>

definition marker_size :: "'f float_ops \<Rightarrow> 'f pyval \<Rightarrow> 'f pyval \<Rightarrow> error + 'f pyval" where
  "marker_size fo width scale =
     (if py_eq fo scale (PyInt 1) then Inr width
      else (case py_float fo width of Inl e \<Rightarrow> Inl e | Inr w \<Rightarrow> py_mul fo w scale))"

definition Marker_init ::
  "'f float_ops \<Rightarrow> 'f store \<Rightarrow> 'f pyval \<Rightarrow> 'f pyval \<Rightarrow> 'f pyval \<Rightarrow> 'f pyval \<Rightarrow>
   'f pyval option \<Rightarrow> 'f pyval option \<Rightarrow> 'f kwargs \<Rightarrow> error + addr \<times> 'f store" where
  "Marker_init fo h minx miny maxx maxy scale orient kwargs =
     (let scale = arg_or (PyInt 1) scale;
          orient = arg_or (PyStr ''auto'') orient
      in case py_sub fo maxx minx of Inl e \<Rightarrow> Inl e
         | Inr width \<Rightarrow>
        (case py_sub fo maxy miny of Inl e \<Rightarrow> Inl e
         | Inr height \<Rightarrow>
        (case marker_size fo width scale of Inl e \<Rightarrow> Inl e
         | Inr markerWidth \<Rightarrow>
        (case marker_size fo height scale of Inl e \<Rightarrow> Inl e
         | Inr markerHeight \<Rightarrow>
        (case py_neg fo maxy of Inl e \<Rightarrow> Inl e
         | Inr neg_maxy \<Rightarrow>
             Inr (DrawingParentElement_init h Marker
                    (dict_display
                       [(''markerWidth'', markerWidth),
                        (''markerHeight'', markerHeight),
                        (''viewBox'', PyStr (format4 fo minx neg_maxy width height)),
                        (''orient'', orient)]
                       kwargs)))))))"

text \<open>
  An instance of the float operations for running examples: exact arithmetic on the
  rationals. Binary floating point rounds correctly, so it agrees with exact arithmetic
  wherever the exact result is a float, as it is for the small integers and halves of
  the examples below. The examples print no float and parse none.
\<close>

definition exact_ops :: "rat float_ops" where
  "exact_ops =
     \<lparr>f_of_int = (\<lambda>n. Some (of_int n)), f_of_str = (\<lambda>s. None),
      f_sub = (\<lambda>x y. x - y), f_mul = (\<lambda>x y. x * y), f_neg = (\<lambda>x. - x),
      f_eq = (\<lambda>x y. x = y), f_eq_int = (\<lambda>x n. x = of_int n), f_str = (\<lambda>x. [])\<rparr>"

text \<open>
  Reading the outcome of a constructor call: whether it returned an object rather than
  raised, and \<open>self.args[k]\<close> of the object it returned.
\<close>

definition returned :: "error + 'a \<Rightarrow> bool" where
  "returned r = (case r of Inl e \<Rightarrow> False | Inr x \<Rightarrow> True)"

definition stored :: "error + addr \<times> 'f store \<Rightarrow> string \<Rightarrow> 'f pyval option" where
  "stored r k = (case r of Inl e \<Rightarrow> None | Inr (a, h) \<Rightarrow> attr h a k)"

text \<open>
  Two objects for the examples: \<open>LinearGradient(0, 0, 1, 1)\<close> and
  \<open>RadialGradient(0, 0, 1)\<close> as their constructors leave them in an empty store.
\<close>

definition example_linear :: "rat element" where
  "example_linear =
     \<lparr>cls_of = LinearGradient, inst_TAG_NAME = None,
      args = [(''x1'', PyInt 0), (''y1'', PyInt 0), (''x2'', PyInt 1), (''y2'', PyInt (- 1)),
              (''gradientUnits'', PyStr ''userSpaceOnUse'')],
      children = []\<rparr>"

definition example_radial :: "rat element" where
  "example_radial =
     \<lparr>cls_of = RadialGradient, inst_TAG_NAME = None,
      args = [(''cx'', PyInt 0), (''cy'', PyInt 0), (''r'', PyInt 1),
              (''gradientUnits'', PyStr ''userSpaceOnUse''), (''fy'', PyNone)],
      children = []\<rparr>"

section \<open>Facts about the host operations\<close>





lemma try_shift_non_numeric: "as_num y = None \<Longrightarrow> try_shift fo s y = Inr y"
  by (simp add: try_shift_def py_sub_def split: option.splits)


lemma try_shift_int: "try_shift fo (PyInt s) (PyInt v) = Inr (PyInt (s - v))"
  by (simp add: try_shift_def py_sub_def)

section \<open>Facts about keyword arguments and the store\<close>

lemma call_kwargs_Inr:
  "call_kwargs named extra = Inr kw \<Longrightarrow>
     kw = named @ extra \<and> set (map fst named) \<inter> set (map fst extra) = {}"
  by (force simp: call_kwargs_def list_ex_iff split: if_splits)

lemma map_of_call_kwargs_named:
  "call_kwargs named extra = Inr kw \<Longrightarrow> map_of named k = Some v \<Longrightarrow> map_of kw k = Some v"
  by (auto simp: call_kwargs_def split: if_splits)

lemma map_of_call_kwargs_extra:
  assumes "call_kwargs named extra = Inr kw" and "map_of extra k = Some v"
  shows "map_of kw k = Some v"
proof -
  from assms(1) have kw: "kw = named @ extra"
    and disj: "set (map fst named) \<inter> set (map fst extra) = {}"
    using call_kwargs_Inr by blast+
  from assms(2) have "k \<in> set (map fst extra)"
    by (metis map_of_eq_None_iff option.distinct(1) set_map)
  with disj have "k \<notin> fst ` set named" by auto
  then have "map_of named k = None" by (simp add: map_of_eq_None_iff)
  with kw assms(2) show ?thesis by (simp add: map_add_def)
qed

lemma attr_new: "attr (h @ [e]) (length h) k = map_of (args e) k"
  by (simp add: attr_def lookup_def)

lemma returned_Inr: "returned r \<Longrightarrow> \<exists>x. r = Inr x"
  by (cases r) (simp_all add: returned_def)

lemma stored_Inr: "stored (Inr (a, h)) k = attr h a k"
  by (simp add: stored_def)

section \<open>What the gradient constructors store\<close>

lemma LinearGradient_init_Inr:
  assumes "LinearGradient_init fo h x1 y1 x2 y2 gradientUnits kwargs = Inr (a, h')"
  obtains y1' y2' kw where
    "try_shift fo (y_shift_of fo (arg_or (PyStr ''userSpaceOnUse'') gradientUnits)) y1 = Inr y1'"
    "try_shift fo (y_shift_of fo (arg_or (PyStr ''userSpaceOnUse'') gradientUnits)) y2 = Inr y2'"
    "call_kwargs [(''x1'', x1), (''y1'', y1'), (''x2'', x2), (''y2'', y2'),
                  (''gradientUnits'', arg_or (PyStr ''userSpaceOnUse'') gradientUnits)] kwargs
       = Inr kw"
    "a = length h"
    "h' = h @ [\<lparr>cls_of = LinearGradient, inst_TAG_NAME = None, args = kw, children = []\<rparr>]"
  using assms
  by (auto simp: LinearGradient_init_def Let_def DrawingParentElement_init_def
           split: sum.splits)

lemma RadialGradient_init_Inr:
  assumes "RadialGradient_init fo h cx cy r gradientUnits fy kwargs = Inr (a, h')"
  obtains cy' fy' kw where
    "try_shift fo (y_shift_of fo (arg_or (PyStr ''userSpaceOnUse'') gradientUnits)) cy = Inr cy'"
    "try_shift fo (y_shift_of fo (arg_or (PyStr ''userSpaceOnUse'') gradientUnits))
       (arg_or PyNone fy) = Inr fy'"
    "call_kwargs [(''cx'', cx), (''cy'', cy'), (''r'', r),
                  (''gradientUnits'', arg_or (PyStr ''userSpaceOnUse'') gradientUnits),
                  (''fy'', fy')] kwargs = Inr kw"
    "a = length h"
    "h' = h @ [\<lparr>cls_of = RadialGradient, inst_TAG_NAME = None, args = kw, children = []\<rparr>]"
  using assms
  by (auto simp: RadialGradient_init_def Let_def DrawingParentElement_init_def
           split: sum.splits)

lemma LinearGradient_stored:
  assumes "returned (LinearGradient_init fo h x1 y1 x2 y2 gu kwargs)"
  shows "\<exists>y1' y2'.
           try_shift fo (y_shift_of fo (arg_or (PyStr ''userSpaceOnUse'') gu)) y1 = Inr y1' \<and>
           try_shift fo (y_shift_of fo (arg_or (PyStr ''userSpaceOnUse'') gu)) y2 = Inr y2' \<and>
           stored (LinearGradient_init fo h x1 y1 x2 y2 gu kwargs) ''x1'' = Some x1 \<and>
           stored (LinearGradient_init fo h x1 y1 x2 y2 gu kwargs) ''y1'' = Some y1' \<and>
           stored (LinearGradient_init fo h x1 y1 x2 y2 gu kwargs) ''x2'' = Some x2 \<and>
           stored (LinearGradient_init fo h x1 y1 x2 y2 gu kwargs) ''y2'' = Some y2' \<and>
           stored (LinearGradient_init fo h x1 y1 x2 y2 gu kwargs) ''gradientUnits''
             = Some (arg_or (PyStr ''userSpaceOnUse'') gu) \<and>
           (\<forall>k v. map_of kwargs k = Some v \<longrightarrow>
                  stored (LinearGradient_init fo h x1 y1 x2 y2 gu kwargs) k = Some v)"
proof -
  from returned_Inr [OF assms] obtain a h' where
    r: "LinearGradient_init fo h x1 y1 x2 y2 gu kwargs = Inr (a, h')"
    by (metis surj_pair)
  then obtain y1' y2' kw where
    t: "try_shift fo (y_shift_of fo (arg_or (PyStr ''userSpaceOnUse'') gu)) y1 = Inr y1'"
       "try_shift fo (y_shift_of fo (arg_or (PyStr ''userSpaceOnUse'') gu)) y2 = Inr y2'" and
    kw: "call_kwargs [(''x1'', x1), (''y1'', y1'), (''x2'', x2), (''y2'', y2'),
           (''gradientUnits'', arg_or (PyStr ''userSpaceOnUse'') gu)] kwargs = Inr kw" and
    h': "a = length h"
      "h' = h @ [\<lparr>cls_of = LinearGradient, inst_TAG_NAME = None, args = kw, children = []\<rparr>]"
    by (rule LinearGradient_init_Inr)
  have at: "stored (LinearGradient_init fo h x1 y1 x2 y2 gu kwargs) k = map_of kw k" for k
    by (simp add: r stored_Inr h' attr_new)
  show ?thesis
    using t map_of_call_kwargs_named [OF kw] map_of_call_kwargs_extra [OF kw]
    by (simp add: at)
qed

lemma RadialGradient_stored:
  assumes "returned (RadialGradient_init fo h cx cy r gu fy kwargs)"
  shows "\<exists>cy' fy'.
           try_shift fo (y_shift_of fo (arg_or (PyStr ''userSpaceOnUse'') gu)) cy = Inr cy' \<and>
           try_shift fo (y_shift_of fo (arg_or (PyStr ''userSpaceOnUse'') gu)) (arg_or PyNone fy)
             = Inr fy' \<and>
           stored (RadialGradient_init fo h cx cy r gu fy kwargs) ''cx'' = Some cx \<and>
           stored (RadialGradient_init fo h cx cy r gu fy kwargs) ''cy'' = Some cy' \<and>
           stored (RadialGradient_init fo h cx cy r gu fy kwargs) ''r'' = Some r \<and>
           stored (RadialGradient_init fo h cx cy r gu fy kwargs) ''fy'' = Some fy' \<and>
           stored (RadialGradient_init fo h cx cy r gu fy kwargs) ''gradientUnits''
             = Some (arg_or (PyStr ''userSpaceOnUse'') gu) \<and>
           (\<forall>k v. map_of kwargs k = Some v \<longrightarrow>
                  stored (RadialGradient_init fo h cx cy r gu fy kwargs) k = Some v)"
proof -
  from returned_Inr [OF assms] obtain a h' where
    r: "RadialGradient_init fo h cx cy r gu fy kwargs = Inr (a, h')"
    by (metis surj_pair)
  then obtain cy' fy' kw where
    t: "try_shift fo (y_shift_of fo (arg_or (PyStr ''userSpaceOnUse'') gu)) cy = Inr cy'"
       "try_shift fo (y_shift_of fo (arg_or (PyStr ''userSpaceOnUse'') gu)) (arg_or PyNone fy)
          = Inr fy'" and
    kw: "call_kwargs [(''cx'', cx), (''cy'', cy'), (''r'', r),
           (''gradientUnits'', arg_or (PyStr ''userSpaceOnUse'') gu), (''fy'', fy')] kwargs
           = Inr kw" and
    h': "a = length h"
      "h' = h @ [\<lparr>cls_of = RadialGradient, inst_TAG_NAME = None, args = kw, children = []\<rparr>]"
    by (rule RadialGradient_init_Inr)
  have at: "stored (RadialGradient_init fo h cx cy r gu fy kwargs) k = map_of kw k" for k
    by (simp add: r stored_Inr h' attr_new)
  show ?thesis
    using t map_of_call_kwargs_named [OF kw] map_of_call_kwargs_extra [OF kw]
    by (simp add: at)
qed


lemma shifted_non_numeric:
  assumes "try_shift fo s y = Inr y'" and "as_num y = None"
  shows "y' = y"
  using assms by (simp add: try_shift_non_numeric)

section \<open>The claims about the gradient constructors\<close>






text \<open>
  C3. Whatever \<open>gradientUnits\<close> is, a coordinate argument that is not a number (\<open>None\<close>, a
  string) is stored as it was passed, and \<open>fy\<close> left out is stored as \<open>None\<close>: the
  TypeError of \<open>y_shift - y\<close> is caught and \<open>y\<close> keeps its value.
\<close>

theorem gradient_non_numeric_unchanged:
  "(returned (LinearGradient_init fo h x1 y1 x2 y2 gu kwargs) \<longrightarrow>
      (as_num x1 = None \<longrightarrow>
         stored (LinearGradient_init fo h x1 y1 x2 y2 gu kwargs) ''x1'' = Some x1) \<and>
      (as_num y1 = None \<longrightarrow>
         stored (LinearGradient_init fo h x1 y1 x2 y2 gu kwargs) ''y1'' = Some y1) \<and>
      (as_num x2 = None \<longrightarrow>
         stored (LinearGradient_init fo h x1 y1 x2 y2 gu kwargs) ''x2'' = Some x2) \<and>
      (as_num y2 = None \<longrightarrow>
         stored (LinearGradient_init fo h x1 y1 x2 y2 gu kwargs) ''y2'' = Some y2)) \<and>
   (returned (RadialGradient_init fo h cx cy r gu fy kwargs) \<longrightarrow>
      (as_num cx = None \<longrightarrow>
         stored (RadialGradient_init fo h cx cy r gu fy kwargs) ''cx'' = Some cx) \<and>
      (as_num cy = None \<longrightarrow>
         stored (RadialGradient_init fo h cx cy r gu fy kwargs) ''cy'' = Some cy) \<and>
      (as_num r = None \<longrightarrow>
         stored (RadialGradient_init fo h cx cy r gu fy kwargs) ''r'' = Some r) \<and>
      (fy = None \<longrightarrow>
         stored (RadialGradient_init fo h cx cy r gu fy kwargs) ''fy'' = Some PyNone) \<and>
      (\<forall>v. fy = Some v \<and> as_num v = None \<longrightarrow>
         stored (RadialGradient_init fo h cx cy r gu fy kwargs) ''fy'' = Some v))"
proof (intro conjI impI allI)
  { assume "returned (LinearGradient_init fo h x1 y1 x2 y2 gu kwargs)"
    from LinearGradient_stored [OF this] obtain y1' y2' where
      t: "try_shift fo (y_shift_of fo (arg_or (PyStr ''userSpaceOnUse'') gu)) y1 = Inr y1'"
         "try_shift fo (y_shift_of fo (arg_or (PyStr ''userSpaceOnUse'') gu)) y2 = Inr y2'" and
      s: "stored (LinearGradient_init fo h x1 y1 x2 y2 gu kwargs) ''x1'' = Some x1"
         "stored (LinearGradient_init fo h x1 y1 x2 y2 gu kwargs) ''y1'' = Some y1'"
         "stored (LinearGradient_init fo h x1 y1 x2 y2 gu kwargs) ''x2'' = Some x2"
         "stored (LinearGradient_init fo h x1 y1 x2 y2 gu kwargs) ''y2'' = Some y2'"
      by blast
    show "stored (LinearGradient_init fo h x1 y1 x2 y2 gu kwargs) ''x1'' = Some x1"
      by (rule s)
    show "stored (LinearGradient_init fo h x1 y1 x2 y2 gu kwargs) ''x2'' = Some x2"
      by (rule s)
    { assume "as_num y1 = None"
      with t(1) s(2) show "stored (LinearGradient_init fo h x1 y1 x2 y2 gu kwargs) ''y1'' = Some y1"
        by (simp add: try_shift_non_numeric) }
    { assume "as_num y2 = None"
      with t(2) s(4) show "stored (LinearGradient_init fo h x1 y1 x2 y2 gu kwargs) ''y2'' = Some y2"
        by (simp add: try_shift_non_numeric) } }
  { assume "returned (RadialGradient_init fo h cx cy r gu fy kwargs)"
    from RadialGradient_stored [OF this] obtain cy' fy' where
      t: "try_shift fo (y_shift_of fo (arg_or (PyStr ''userSpaceOnUse'') gu)) cy = Inr cy'"
         "try_shift fo (y_shift_of fo (arg_or (PyStr ''userSpaceOnUse'') gu)) (arg_or PyNone fy)
            = Inr fy'" and
      s: "stored (RadialGradient_init fo h cx cy r gu fy kwargs) ''cx'' = Some cx"
         "stored (RadialGradient_init fo h cx cy r gu fy kwargs) ''cy'' = Some cy'"
         "stored (RadialGradient_init fo h cx cy r gu fy kwargs) ''r'' = Some r"
         "stored (RadialGradient_init fo h cx cy r gu fy kwargs) ''fy'' = Some fy'"
      by blast
    show "stored (RadialGradient_init fo h cx cy r gu fy kwargs) ''cx'' = Some cx"
      by (rule s)
    show "stored (RadialGradient_init fo h cx cy r gu fy kwargs) ''r'' = Some r"
      by (rule s)
    { assume "as_num cy = None"
      with t(1) s(2) show "stored (RadialGradient_init fo h cx cy r gu fy kwargs) ''cy'' = Some cy"
        by (simp add: try_shift_non_numeric) }
    { assume "fy = None"
      with t(2) s(4) show "stored (RadialGradient_init fo h cx cy r gu fy kwargs) ''fy'' = Some PyNone"
        by (simp add: try_shift_non_numeric arg_or_def) }
    { fix v assume "fy = Some v \<and> as_num v = None"
      with t(2) s(4) show "stored (RadialGradient_init fo h cx cy r gu fy kwargs) ''fy'' = Some v"
        by (simp add: try_shift_non_numeric arg_or_def) } }
qed

text \<open>
  The theorem of C3 at \<open>LinearGradient(None, '50%', 1, None, 'objectBoundingBox')\<close>, at
  \<open>RadialGradient(0, None, 1, 'objectBoundingBox')\<close> with \<open>fy\<close> omitted, and at
  \<open>RadialGradient(0, 0, 1, fy='10%')\<close>.
\<close>

theorem gradient_non_numeric_unchanged_witness:
  "returned (LinearGradient_init exact_ops [] PyNone (PyStr ''50%'') (PyInt 1) PyNone
               (Some (PyStr ''objectBoundingBox'')) []) \<and>
   as_num (PyStr ''50%'' :: rat pyval) = None \<and>
   stored (LinearGradient_init exact_ops [] PyNone (PyStr ''50%'') (PyInt 1) PyNone
             (Some (PyStr ''objectBoundingBox'')) []) ''x1'' = Some PyNone \<and>
   stored (LinearGradient_init exact_ops [] PyNone (PyStr ''50%'') (PyInt 1) PyNone
             (Some (PyStr ''objectBoundingBox'')) []) ''y1'' = Some (PyStr ''50%'') \<and>
   stored (LinearGradient_init exact_ops [] PyNone (PyStr ''50%'') (PyInt 1) PyNone
             (Some (PyStr ''objectBoundingBox'')) []) ''y2'' = Some PyNone \<and>
   returned (RadialGradient_init exact_ops [] (PyInt 0) PyNone (PyInt 1)
               (Some (PyStr ''objectBoundingBox'')) None []) \<and>
   stored (RadialGradient_init exact_ops [] (PyInt 0) PyNone (PyInt 1)
             (Some (PyStr ''objectBoundingBox'')) None []) ''cy'' = Some PyNone \<and>
   stored (RadialGradient_init exact_ops [] (PyInt 0) PyNone (PyInt 1)
             (Some (PyStr ''objectBoundingBox'')) None []) ''fy'' = Some PyNone \<and>
   returned (RadialGradient_init exact_ops [] (PyInt 0) (PyInt 0) (PyInt 1)
               None (Some (PyStr ''10%'')) []) \<and>
   stored (RadialGradient_init exact_ops [] (PyInt 0) (PyInt 0) (PyInt 1)
             None (Some (PyStr ''10%'')) []) ''fy'' = Some (PyStr ''10%'')"
proof -
  have lin: "LinearGradient_init exact_ops [] PyNone (PyStr ''50%'') (PyInt 1) PyNone
               (Some (PyStr ''objectBoundingBox'')) []
     = Inr (0, [\<lparr>cls_of = LinearGradient, inst_TAG_NAME = None,
                  args = [(''x1'', PyNone), (''y1'', PyStr ''50%''), (''x2'', PyInt 1),
                          (''y2'', PyNone), (''gradientUnits'', PyStr ''objectBoundingBox'')],
                  children = []\<rparr>])"
    by code_simp
  have rad: "RadialGradient_init exact_ops [] (PyInt 0) PyNone (PyInt 1)
               (Some (PyStr ''objectBoundingBox'')) None []
     = Inr (0, [\<lparr>cls_of = RadialGradient, inst_TAG_NAME = None,
                  args = [(''cx'', PyInt 0), (''cy'', PyNone), (''r'', PyInt 1),
                          (''gradientUnits'', PyStr ''objectBoundingBox''), (''fy'', PyNone)],
                  children = []\<rparr>])"
    by code_simp
  have rad2: "RadialGradient_init exact_ops [] (PyInt 0) (PyInt 0) (PyInt 1)
               None (Some (PyStr ''10%'')) []
     = Inr (0, [\<lparr>cls_of = RadialGradient, inst_TAG_NAME = None,
                  args = [(''cx'', PyInt 0), (''cy'', PyInt 0), (''r'', PyInt 1),
                          (''gradientUnits'', PyStr ''userSpaceOnUse''),
                          (''fy'', PyStr ''10%'')],
                  children = []\<rparr>])"
    by code_simp
  show ?thesis
    using
      gradient_non_numeric_unchanged [of exact_ops "[]" PyNone "PyStr ''50%''" "PyInt 1" PyNone
        "Some (PyStr ''objectBoundingBox'')" "[]" "PyInt 0" PyNone "PyInt 1" None]
      gradient_non_numeric_unchanged [of exact_ops "[]" PyNone "PyStr ''50%''" "PyInt 1" PyNone
        None "[]" "PyInt 0" "PyInt 0" "PyInt 1" "Some (PyStr ''10%'')"]
    by (simp add: lin rad rad2 returned_def stored_def attr_def lookup_def)
qed

text \<open>
  C10. For every value of \<open>gradientUnits\<close>, a LinearGradient stores \<open>x1\<close> and \<open>x2\<close> as
  supplied and a RadialGradient stores \<open>cx\<close> and \<open>r\<close> as supplied; \<open>gradientUnits\<close> and the
  extra keyword arguments are stored as supplied too. Only \<open>y1\<close>, \<open>y2\<close>, \<open>cy\<close> and \<open>fy\<close>
  go through the shift.
\<close>

theorem gradient_other_arguments_unchanged:
  "(returned (LinearGradient_init fo h x1 y1 x2 y2 gu kwargs) \<longrightarrow>
      stored (LinearGradient_init fo h x1 y1 x2 y2 gu kwargs) ''x1'' = Some x1 \<and>
      stored (LinearGradient_init fo h x1 y1 x2 y2 gu kwargs) ''x2'' = Some x2 \<and>
      stored (LinearGradient_init fo h x1 y1 x2 y2 gu kwargs) ''gradientUnits''
        = Some (arg_or (PyStr ''userSpaceOnUse'') gu) \<and>
      (\<forall>k v. map_of kwargs k = Some v \<longrightarrow>
             stored (LinearGradient_init fo h x1 y1 x2 y2 gu kwargs) k = Some v)) \<and>
   (returned (RadialGradient_init fo h cx cy r gu fy kwargs) \<longrightarrow>
      stored (RadialGradient_init fo h cx cy r gu fy kwargs) ''cx'' = Some cx \<and>
      stored (RadialGradient_init fo h cx cy r gu fy kwargs) ''r'' = Some r \<and>
      stored (RadialGradient_init fo h cx cy r gu fy kwargs) ''gradientUnits''
        = Some (arg_or (PyStr ''userSpaceOnUse'') gu) \<and>
      (\<forall>k v. map_of kwargs k = Some v \<longrightarrow>
             stored (RadialGradient_init fo h cx cy r gu fy kwargs) k = Some v))"
  (is "(?lin \<longrightarrow> ?L) \<and> (?rad \<longrightarrow> ?R)")
proof (rule conjI; rule impI)
  assume ?lin
  from LinearGradient_stored [OF this] show ?L by blast
next
  assume ?rad
  from RadialGradient_stored [OF this] show ?R by blast
qed

text \<open>
  The theorem of C10 at \<open>LinearGradient(3, 5, 0.5, 1, 'objectBoundingBox', id='g')\<close> and
  \<open>RadialGradient(3, 5, 2, 'objectBoundingBox', id='g')\<close>.
\<close>

theorem gradient_other_arguments_unchanged_witness:
  "returned (LinearGradient_init exact_ops [] (PyInt 3) (PyInt 5) (PyFloat (1 / 2)) (PyInt 1)
               (Some (PyStr ''objectBoundingBox'')) [(''id'', PyStr ''g'')]) \<and>
   stored (LinearGradient_init exact_ops [] (PyInt 3) (PyInt 5) (PyFloat (1 / 2)) (PyInt 1)
             (Some (PyStr ''objectBoundingBox'')) [(''id'', PyStr ''g'')]) ''x1'' = Some (PyInt 3) \<and>
   stored (LinearGradient_init exact_ops [] (PyInt 3) (PyInt 5) (PyFloat (1 / 2)) (PyInt 1)
             (Some (PyStr ''objectBoundingBox'')) [(''id'', PyStr ''g'')]) ''x2''
     = Some (PyFloat (1 / 2)) \<and>
   stored (LinearGradient_init exact_ops [] (PyInt 3) (PyInt 5) (PyFloat (1 / 2)) (PyInt 1)
             (Some (PyStr ''objectBoundingBox'')) [(''id'', PyStr ''g'')]) ''gradientUnits''
     = Some (PyStr ''objectBoundingBox'') \<and>
   map_of [(''id'', PyStr ''g'' :: rat pyval)] ''id'' = Some (PyStr ''g'') \<and>
   stored (LinearGradient_init exact_ops [] (PyInt 3) (PyInt 5) (PyFloat (1 / 2)) (PyInt 1)
             (Some (PyStr ''objectBoundingBox'')) [(''id'', PyStr ''g'')]) ''id''
     = Some (PyStr ''g'') \<and>
   returned (RadialGradient_init exact_ops [] (PyInt 3) (PyInt 5) (PyInt 2)
               (Some (PyStr ''objectBoundingBox'')) None [(''id'', PyStr ''g'')]) \<and>
   stored (RadialGradient_init exact_ops [] (PyInt 3) (PyInt 5) (PyInt 2)
             (Some (PyStr ''objectBoundingBox'')) None [(''id'', PyStr ''g'')]) ''cx''
     = Some (PyInt 3) \<and>
   stored (RadialGradient_init exact_ops [] (PyInt 3) (PyInt 5) (PyInt 2)
             (Some (PyStr ''objectBoundingBox'')) None [(''id'', PyStr ''g'')]) ''r''
     = Some (PyInt 2) \<and>
   stored (RadialGradient_init exact_ops [] (PyInt 3) (PyInt 5) (PyInt 2)
             (Some (PyStr ''objectBoundingBox'')) None [(''id'', PyStr ''g'')]) ''id''
     = Some (PyStr ''g'')"
proof -
  have lin: "LinearGradient_init exact_ops [] (PyInt 3) (PyInt 5) (PyFloat (1 / 2)) (PyInt 1)
               (Some (PyStr ''objectBoundingBox'')) [(''id'', PyStr ''g'')]
     = Inr (0, [\<lparr>cls_of = LinearGradient, inst_TAG_NAME = None,
                  args = [(''x1'', PyInt 3), (''y1'', PyInt (- 4)), (''x2'', PyFloat (1 / 2)),
                          (''y2'', PyInt 0), (''gradientUnits'', PyStr ''objectBoundingBox''),
                          (''id'', PyStr ''g'')],
                  children = []\<rparr>])"
    by code_simp
  have rad: "RadialGradient_init exact_ops [] (PyInt 3) (PyInt 5) (PyInt 2)
               (Some (PyStr ''objectBoundingBox'')) None [(''id'', PyStr ''g'')]
     = Inr (0, [\<lparr>cls_of = RadialGradient, inst_TAG_NAME = None,
                  args = [(''cx'', PyInt 3), (''cy'', PyInt (- 4)), (''r'', PyInt 2),
                          (''gradientUnits'', PyStr ''objectBoundingBox''), (''fy'', PyNone),
                          (''id'', PyStr ''g'')],
                  children = []\<rparr>])"
    by code_simp
  show ?thesis
    using gradient_other_arguments_unchanged [of exact_ops "[]" "PyInt 3" "PyInt 5"
        "PyFloat (1 / 2)" "PyInt 1" "Some (PyStr ''objectBoundingBox'')" "[(''id'', PyStr ''g'')]"
        "PyInt 3" "PyInt 5" "PyInt 2" None]
    by (simp add: lin rad returned_def stored_def attr_def lookup_def)
qed

section \<open>The claims about \<open>add_stop\<close>\<close>

lemma lookup_Some: "lookup h a = Some e \<longleftrightarrow> a < length h \<and> h ! a = e"
  by (auto simp: lookup_def)

lemma lookup_None: "lookup h a = None \<longleftrightarrow> length h \<le> a"
  by (auto simp: lookup_def)

lemma example_linear_constructed:
  "LinearGradient_init exact_ops [] (PyInt 0) (PyInt 0) (PyInt 1) (PyInt 1) None []
     = Inr (0, [example_linear])"
  by code_simp

lemma example_radial_constructed:
  "RadialGradient_init exact_ops [] (PyInt 0) (PyInt 0) (PyInt 1) None None []
     = Inr (0, [example_radial])"
  by code_simp

text \<open>
  Appending a fresh object to the store and then to the children of a live parent.
\<close>

lemma add_stop_store:
  assumes "lookup h g = Some e"
  shows "append (h @ [stop]) g (length h)
           = h[g := e\<lparr>children := children e @ [length h]\<rparr>] @ [stop]"
  using assms by (simp add: append_def lookup_def nth_append list_update_append split: if_splits)

lemma LinearGradient_add_stop_plain:
  assumes "lookup h g = Some e"
  shows "LinearGradient_add_stop h g offset color opacity []
           = Inr (Some (length h),
                  h[g := e\<lparr>children := children e @ [length h]\<rparr>] @
                  [\<lparr>cls_of = GradientStop, inst_TAG_NAME = None,
                     args = [(''offset'', offset), (''stop_color'', color),
                             (''stop_opacity'', arg_or PyNone opacity)],
                     children = []\<rparr>])"
  by (simp add: LinearGradient_add_stop_def call_kwargs_def GradientStop_init_def
        DrawingParentElement_init_def add_stop_store [OF assms])

lemma RadialGradient_add_stop_plain:
  assumes "lookup h g = Some e"
  shows "RadialGradient_add_stop h g offset color opacity []
           = Inr (None,
                  h[g := e\<lparr>children := children e @ [length h]\<rparr>] @
                  [\<lparr>cls_of = GradientStop, inst_TAG_NAME = None,
                     args = [(''offset'', offset), (''stop_color'', color),
                             (''stop_opacity'', arg_or PyNone opacity)],
                     children = []\<rparr>])"
  by (simp add: RadialGradient_add_stop_def call_kwargs_def GradientStop_init_def
        DrawingParentElement_init_def add_stop_store [OF assms])

lemma store_after_add_stop:
  fixes stop :: "'f element"
  assumes "lookup h g = Some e"
  defines "h' \<equiv> h[g := e\<lparr>children := children e @ [length h]\<rparr>] @ [stop]"
  shows "lookup h (length h) = None"
    and "length h' = Suc (length h)"
    and "lookup h' (length h) = Some stop"
    and "lookup h' g = Some (e\<lparr>children := children e @ [length h]\<rparr>)"
    and "children_of h' g = children_of h g @ [length h]"
    and "\<forall>a. a \<noteq> g \<and> a \<noteq> length h \<longrightarrow> lookup h' a = lookup h a"
  using assms by (auto simp: lookup_def children_of_def nth_append split: if_splits)

text \<open>
  C4. For a LinearGradient \<open>g\<close>, the call \<open>g.add_stop(offset, color)\<close> creates exactly one
  object, a GradientStop with attributes \<open>offset=offset\<close>, \<open>stop_color=color\<close>,
  \<open>stop_opacity=None\<close>, makes it the last child of \<open>g\<close>, changes nothing else, and
  returns that very object.
\<close>

theorem LinearGradient_add_stop_appends:
  assumes "lookup h g = Some e" and "cls_of e = LinearGradient"
  shows "\<exists>stop h'.
           LinearGradient_add_stop h g offset color None [] = Inr (Some stop, h') \<and>
           lookup h stop = None \<and>
           length h' = Suc (length h) \<and>
           lookup h' stop = Some \<lparr>cls_of = GradientStop, inst_TAG_NAME = None,
                                   args = [(''offset'', offset), (''stop_color'', color),
                                           (''stop_opacity'', PyNone)],
                                   children = []\<rparr> \<and>
           lookup h' g = Some (e\<lparr>children := children e @ [stop]\<rparr>) \<and>
           children_of h' g = children_of h g @ [stop] \<and>
           (\<forall>a. a \<noteq> g \<and> a \<noteq> stop \<longrightarrow> lookup h' a = lookup h a)"
  using LinearGradient_add_stop_plain [OF assms(1), of offset color None]
    store_after_add_stop [OF assms(1)]
  by (simp add: arg_or_def)

text \<open>
  The theorem of C4 at the spec's example, \<open>add_stop(0.5, 'red')\<close> on
  \<open>LinearGradient(0, 0, 1, 1)\<close>: the new stop is object 1, the only child.
\<close>

theorem LinearGradient_add_stop_appends_witness:
  "lookup [example_linear] 0 = Some example_linear \<and>
   cls_of example_linear = LinearGradient \<and>
   LinearGradient_add_stop [example_linear] 0 (PyFloat (1 / 2)) (PyStr ''red'') None []
     = Inr (Some 1,
            [example_linear\<lparr>children := [1]\<rparr>,
             \<lparr>cls_of = GradientStop, inst_TAG_NAME = None,
               args = [(''offset'', PyFloat (1 / 2)), (''stop_color'', PyStr ''red''),
                       (''stop_opacity'', PyNone)],
               children = []\<rparr>]) \<and>
   children_of [example_linear] 0 = [] \<and>
   children_of [example_linear\<lparr>children := [1]\<rparr>,
             \<lparr>cls_of = GradientStop, inst_TAG_NAME = None,
               args = [(''offset'', PyFloat (1 / 2)), (''stop_color'', PyStr ''red''),
                       (''stop_opacity'', PyNone)],
               children = []\<rparr>] 0 = [1]"
proof -
  have live: "lookup [example_linear] 0 = Some example_linear"
    by (simp add: lookup_def)
  have c: "cls_of example_linear = LinearGradient"
    by (simp add: example_linear_def)
  from LinearGradient_add_stop_appends [OF live c, of "PyFloat (1 / 2)" "PyStr ''red''"]
  obtain stop h' where
    r: "LinearGradient_add_stop [example_linear] 0 (PyFloat (1 / 2)) (PyStr ''red'') None []
         = Inr (Some stop, h')" and
    new: "lookup [example_linear] stop = None" and
    len: "length h' = Suc (length [example_linear])" and
    st: "lookup h' stop = Some \<lparr>cls_of = GradientStop, inst_TAG_NAME = None,
               args = [(''offset'', PyFloat (1 / 2)), (''stop_color'', PyStr ''red''),
                       (''stop_opacity'', PyNone)],
               children = []\<rparr>" and
    par: "lookup h' 0 = Some (example_linear\<lparr>children := children example_linear @ [stop]\<rparr>)"
    by auto
  from st len new have stop: "stop = 1"
    by (auto simp: lookup_def split: if_splits)
  from len obtain a b where h': "h' = [a, b]"
    by (auto simp: length_Suc_conv)
  from par st have "a = example_linear\<lparr>children := [1]\<rparr>"
     and "b = \<lparr>cls_of = GradientStop, inst_TAG_NAME = None,
               args = [(''offset'', PyFloat (1 / 2)), (''stop_color'', PyStr ''red''),
                       (''stop_opacity'', PyNone)],
               children = []\<rparr>"
    by (simp_all add: h' stop lookup_def example_linear_def)
  with r live c show ?thesis
    by (simp add: h' stop children_of_def lookup_def example_linear_def)
qed

text \<open>
  C5. \<open>RadialGradient.add_stop\<close> does to the store exactly what \<open>LinearGradient.add_stop\<close>
  does on the same arguments (the same GradientStop, appended as the last child, the
  same exception when the keywords collide), and evaluates to \<open>None\<close> where the other
  returns the stop.
\<close>

theorem RadialGradient_add_stop_like_linear:
  "RadialGradient_add_stop h g offset color opacity kwargs
     = (case LinearGradient_add_stop h g offset color opacity kwargs of
          Inl e \<Rightarrow> Inl e
        | Inr (stop, h') \<Rightarrow> Inr (None, h')) \<and>
   (lookup h g = Some e \<and> cls_of e = RadialGradient \<longrightarrow>
      (\<exists>stop h'.
         LinearGradient_add_stop h g offset color opacity [] = Inr (Some stop, h') \<and>
         RadialGradient_add_stop h g offset color opacity [] = Inr (None, h') \<and>
         lookup h stop = None \<and>
         length h' = Suc (length h) \<and>
         lookup h' stop = Some \<lparr>cls_of = GradientStop, inst_TAG_NAME = None,
                                 args = [(''offset'', offset), (''stop_color'', color),
                                         (''stop_opacity'', arg_or PyNone opacity)],
                                 children = []\<rparr> \<and>
         lookup h' g = Some (e\<lparr>children := children e @ [stop]\<rparr>) \<and>
         children_of h' g = children_of h g @ [stop] \<and>
         (\<forall>a. a \<noteq> g \<and> a \<noteq> stop \<longrightarrow> lookup h' a = lookup h a)))"
proof (rule conjI)
  show "RadialGradient_add_stop h g offset color opacity kwargs
     = (case LinearGradient_add_stop h g offset color opacity kwargs of
          Inl e \<Rightarrow> Inl e
        | Inr (stop, h') \<Rightarrow> Inr (None, h'))"
    by (simp add: RadialGradient_add_stop_def LinearGradient_add_stop_def Let_def
          split: sum.splits prod.splits)
next
  show "lookup h g = Some e \<and> cls_of e = RadialGradient \<longrightarrow>
      (\<exists>stop h'.
         LinearGradient_add_stop h g offset color opacity [] = Inr (Some stop, h') \<and>
         RadialGradient_add_stop h g offset color opacity [] = Inr (None, h') \<and>
         lookup h stop = None \<and>
         length h' = Suc (length h) \<and>
         lookup h' stop = Some \<lparr>cls_of = GradientStop, inst_TAG_NAME = None,
                                 args = [(''offset'', offset), (''stop_color'', color),
                                         (''stop_opacity'', arg_or PyNone opacity)],
                                 children = []\<rparr> \<and>
         lookup h' g = Some (e\<lparr>children := children e @ [stop]\<rparr>) \<and>
         children_of h' g = children_of h g @ [stop] \<and>
         (\<forall>a. a \<noteq> g \<and> a \<noteq> stop \<longrightarrow> lookup h' a = lookup h a))"
  proof
    assume "lookup h g = Some e \<and> cls_of e = RadialGradient"
    then have live: "lookup h g = Some e" by simp
    show "\<exists>stop h'.
         LinearGradient_add_stop h g offset color opacity [] = Inr (Some stop, h') \<and>
         RadialGradient_add_stop h g offset color opacity [] = Inr (None, h') \<and>
         lookup h stop = None \<and>
         length h' = Suc (length h) \<and>
         lookup h' stop = Some \<lparr>cls_of = GradientStop, inst_TAG_NAME = None,
                                 args = [(''offset'', offset), (''stop_color'', color),
                                         (''stop_opacity'', arg_or PyNone opacity)],
                                 children = []\<rparr> \<and>
         lookup h' g = Some (e\<lparr>children := children e @ [stop]\<rparr>) \<and>
         children_of h' g = children_of h g @ [stop] \<and>
         (\<forall>a. a \<noteq> g \<and> a \<noteq> stop \<longrightarrow> lookup h' a = lookup h a)"
      using LinearGradient_add_stop_plain [OF live, of offset color opacity]
        RadialGradient_add_stop_plain [OF live, of offset color opacity]
        store_after_add_stop [OF live]
      by simp
  qed
qed

text \<open>
  The theorem of C5 at \<open>add_stop(1, 'blue', 0.5)\<close> on \<open>RadialGradient(0, 0, 1)\<close>.
\<close>

theorem RadialGradient_add_stop_like_linear_witness:
  "lookup [example_radial] 0 = Some example_radial \<and>
   cls_of example_radial = RadialGradient \<and>
   LinearGradient_add_stop [example_radial] 0 (PyInt 1) (PyStr ''blue'') (Some (PyFloat (1 / 2))) []
     = Inr (Some 1,
            [example_radial\<lparr>children := [1]\<rparr>,
             \<lparr>cls_of = GradientStop, inst_TAG_NAME = None,
               args = [(''offset'', PyInt 1), (''stop_color'', PyStr ''blue''),
                       (''stop_opacity'', PyFloat (1 / 2))],
               children = []\<rparr>]) \<and>
   RadialGradient_add_stop [example_radial] 0 (PyInt 1) (PyStr ''blue'') (Some (PyFloat (1 / 2))) []
     = Inr (None,
            [example_radial\<lparr>children := [1]\<rparr>,
             \<lparr>cls_of = GradientStop, inst_TAG_NAME = None,
               args = [(''offset'', PyInt 1), (''stop_color'', PyStr ''blue''),
                       (''stop_opacity'', PyFloat (1 / 2))],
               children = []\<rparr>])"
proof -
  have live: "lookup [example_radial] 0 = Some example_radial \<and>
      cls_of example_radial = RadialGradient"
    by (simp add: lookup_def example_radial_def)
  have lin: "LinearGradient_add_stop [example_radial] 0 (PyInt 1) (PyStr ''blue'')
        (Some (PyFloat (1 / 2))) []
     = Inr (Some 1,
            [example_radial\<lparr>children := [1]\<rparr>,
             \<lparr>cls_of = GradientStop, inst_TAG_NAME = None,
               args = [(''offset'', PyInt 1), (''stop_color'', PyStr ''blue''),
                       (''stop_opacity'', PyFloat (1 / 2))],
               children = []\<rparr>])"
    by (simp add: LinearGradient_add_stop_def call_kwargs_def GradientStop_init_def
          DrawingParentElement_init_def append_def lookup_def arg_or_def example_radial_def)
  from RadialGradient_add_stop_like_linear [of "[example_radial]" 0 "PyInt 1" "PyStr ''blue''"
      "Some (PyFloat (1 / 2))" "[]" example_radial]
  have "RadialGradient_add_stop [example_radial] 0 (PyInt 1) (PyStr ''blue'')
          (Some (PyFloat (1 / 2))) []
     = (case LinearGradient_add_stop [example_radial] 0 (PyInt 1) (PyStr ''blue'')
               (Some (PyFloat (1 / 2))) [] of
          Inl e \<Rightarrow> Inl e
        | Inr (stop, h') \<Rightarrow> Inr (None, h'))"
    by blast
  with lin live show ?thesis
    by simp
qed

section \<open>The claims about \<open>Marker\<close>\<close>

text \<open>
  Looking a key up after a dictionary display: the item of \<open>kwargs\<close> if there is one,
  else the item written out.
\<close>

lemma map_of_setitem: "map_of (setitem d k v) = (map_of d)(k \<mapsto> v)"
  by (induction d) auto

lemma map_of_dict_display:
  "distinct (map fst kw) \<Longrightarrow>
     map_of (dict_display d kw) k = (case map_of kw k of Some v \<Rightarrow> Some v | None \<Rightarrow> map_of d k)"
proof (induction kw arbitrary: d)
  case Nil
  show ?case by simp
next
  case (Cons p kw)
  obtain k' v' where p: "p = (k', v')" by (cases p)
  from Cons.prems have d: "distinct (map fst kw)" and new: "k' \<notin> fst ` set kw"
    by (simp_all add: p)
  from new have none: "map_of kw k' = None"
    by (simp add: map_of_eq_None_iff)
  show ?case
    using Cons.IH [OF d, of "setitem d k' v'"] none
    by (auto simp: p map_of_setitem split: option.splits)
qed

text \<open>
  \<open>float(w)\<close> is a float, and so is the product of a float with a number.
\<close>

lemma py_float_is_float: "py_float fo w = Inr fw \<Longrightarrow> \<exists>x. fw = PyFloat x"
  by (cases w) (auto simp: py_float_def split: option.splits sum.splits if_splits)

lemma num_mul_float: "num_mul fo (F x) n = Inr m \<Longrightarrow> \<exists>y. m = PyFloat y"
  by (cases n) (auto split: option.splits sum.splits)

lemma py_mul_float: "py_mul fo (PyFloat x) s = (case as_num s of None \<Rightarrow> Inl TypeError | Some n \<Rightarrow> num_mul fo (F x) n)"
  by (cases s) (simp_all add: py_mul_def)

lemma py_mul_float_is_float: "py_mul fo (PyFloat x) s = Inr m \<Longrightarrow> \<exists>y. m = PyFloat y"
  by (auto simp: py_mul_float split: option.splits sum.splits)

lemma marker_size_cases:
  assumes "marker_size fo width scale = Inr m"
  shows "(py_eq fo scale (PyInt 1) \<longrightarrow> m = width) \<and>
         (\<not> py_eq fo scale (PyInt 1) \<longrightarrow>
            (\<exists>x y. py_float fo width = Inr (PyFloat x) \<and>
                   py_mul fo (PyFloat x) scale = Inr (PyFloat y) \<and> m = PyFloat y))"
proof (cases "py_eq fo scale (PyInt 1)")
  case True
  with assms show ?thesis by (simp add: marker_size_def)
next
  case False
  with assms obtain fw where fw: "py_float fo width = Inr fw" and m: "py_mul fo fw scale = Inr m"
    by (auto simp: marker_size_def split: sum.splits)
  from py_float_is_float [OF fw] obtain x where x: "fw = PyFloat x" ..
  from py_mul_float_is_float [OF m [unfolded x]] obtain y where y: "m = PyFloat y" ..
  from False fw m x y show ?thesis by auto
qed

lemma Marker_init_Inr:
  assumes "Marker_init fo h minx miny maxx maxy scale orient kwargs = Inr (a, h')"
  obtains width height markerWidth markerHeight neg_maxy where
    "py_sub fo maxx minx = Inr width"
    "py_sub fo maxy miny = Inr height"
    "marker_size fo width (arg_or (PyInt 1) scale) = Inr markerWidth"
    "marker_size fo height (arg_or (PyInt 1) scale) = Inr markerHeight"
    "py_neg fo maxy = Inr neg_maxy"
    "a = length h"
    "h' = h @ [\<lparr>cls_of = Marker, inst_TAG_NAME = None,
                 args = dict_display
                          [(''markerWidth'', markerWidth), (''markerHeight'', markerHeight),
                           (''viewBox'', PyStr (format4 fo minx neg_maxy width height)),
                           (''orient'', arg_or (PyStr ''auto'') orient)] kwargs,
                 children = []\<rparr>]"
proof -
  from assms obtain width where w: "py_sub fo maxx minx = Inr width"
    by (cases "py_sub fo maxx minx") (simp_all add: Marker_init_def Let_def)
  from assms w obtain height where hh: "py_sub fo maxy miny = Inr height"
    by (cases "py_sub fo maxy miny") (simp_all add: Marker_init_def Let_def)
  from assms w hh obtain mw where mw: "marker_size fo width (arg_or (PyInt 1) scale) = Inr mw"
    by (cases "marker_size fo width (arg_or (PyInt 1) scale)")
       (simp_all add: Marker_init_def Let_def)
  from assms w hh mw obtain mh where mh: "marker_size fo height (arg_or (PyInt 1) scale) = Inr mh"
    by (cases "marker_size fo height (arg_or (PyInt 1) scale)")
       (simp_all add: Marker_init_def Let_def)
  from assms w hh mw mh obtain n where n: "py_neg fo maxy = Inr n"
    by (cases "py_neg fo maxy") (simp_all add: Marker_init_def Let_def)
  from assms w hh mw mh n have "a = length h"
    and "h' = h @ [\<lparr>cls_of = Marker, inst_TAG_NAME = None,
                 args = dict_display
                          [(''markerWidth'', mw), (''markerHeight'', mh),
                           (''viewBox'', PyStr (format4 fo minx n width height)),
                           (''orient'', arg_or (PyStr ''auto'') orient)] kwargs,
                 children = []\<rparr>]"
    by (simp_all add: Marker_init_def Let_def DrawingParentElement_init_def)
  with w hh mw mh n that show thesis by blast
qed

lemma Marker_returned_any_kwargs:
  "returned (Marker_init fo h minx miny maxx maxy scale orient kwargs)
     = returned (Marker_init fo h minx miny maxx maxy scale orient kwargs')"
proof (cases "py_sub fo maxx minx")
  case Inl
  then show ?thesis by (simp add: Marker_init_def Let_def returned_def)
next
  case w: (Inr width)
  show ?thesis
  proof (cases "py_sub fo maxy miny")
    case Inl
    with w show ?thesis by (simp add: Marker_init_def Let_def returned_def)
  next
    case hh: (Inr height)
    show ?thesis
    proof (cases "marker_size fo width (arg_or (PyInt 1) scale)")
      case Inl
      with w hh show ?thesis by (simp add: Marker_init_def Let_def returned_def)
    next
      case mw: (Inr markerWidth)
      show ?thesis
      proof (cases "marker_size fo height (arg_or (PyInt 1) scale)")
        case Inl
        with w hh mw show ?thesis by (simp add: Marker_init_def Let_def returned_def)
      next
        case mh: (Inr markerHeight)
        show ?thesis
          using w hh mw mh
          by (cases "py_neg fo maxy") (simp_all add: Marker_init_def Let_def returned_def)
      qed
    qed
  qed
qed

lemma Marker_stored:
  assumes "returned (Marker_init fo h minx miny maxx maxy scale orient kwargs)"
  shows "\<exists>width height markerWidth markerHeight neg_maxy.
           py_sub fo maxx minx = Inr width \<and>
           py_sub fo maxy miny = Inr height \<and>
           marker_size fo width (arg_or (PyInt 1) scale) = Inr markerWidth \<and>
           marker_size fo height (arg_or (PyInt 1) scale) = Inr markerHeight \<and>
           py_neg fo maxy = Inr neg_maxy \<and>
           (\<forall>k. stored (Marker_init fo h minx miny maxx maxy scale orient kwargs) k
                  = map_of (dict_display
                          [(''markerWidth'', markerWidth), (''markerHeight'', markerHeight),
                           (''viewBox'', PyStr (format4 fo minx neg_maxy width height)),
                           (''orient'', arg_or (PyStr ''auto'') orient)] kwargs) k)"
proof -
  from returned_Inr [OF assms] obtain a h' where
    r: "Marker_init fo h minx miny maxx maxy scale orient kwargs = Inr (a, h')"
    by (metis surj_pair)
  then obtain width height markerWidth markerHeight neg_maxy where
    c: "py_sub fo maxx minx = Inr width"
       "py_sub fo maxy miny = Inr height"
       "marker_size fo width (arg_or (PyInt 1) scale) = Inr markerWidth"
       "marker_size fo height (arg_or (PyInt 1) scale) = Inr markerHeight"
       "py_neg fo maxy = Inr neg_maxy" and
    h': "a = length h"
       "h' = h @ [\<lparr>cls_of = Marker, inst_TAG_NAME = None,
                 args = dict_display
                          [(''markerWidth'', markerWidth), (''markerHeight'', markerHeight),
                           (''viewBox'', PyStr (format4 fo minx neg_maxy width height)),
                           (''orient'', arg_or (PyStr ''auto'') orient)] kwargs,
                 children = []\<rparr>]"
    by (rule Marker_init_Inr)
  have "stored (Marker_init fo h minx miny maxx maxy scale orient kwargs) k
          = map_of (dict_display
                          [(''markerWidth'', markerWidth), (''markerHeight'', markerHeight),
                           (''viewBox'', PyStr (format4 fo minx neg_maxy width height)),
                           (''orient'', arg_or (PyStr ''auto'') orient)] kwargs) k" for k
    by (simp only: r stored_Inr h' attr_new element.simps)
  with c show ?thesis by blast
qed

text \<open>
  C6. For \<open>Marker(minx, miny, maxx, maxy, scale)\<close> with \<open>width = maxx - minx\<close> and
  \<open>height = maxy - miny\<close>: when \<open>scale == 1\<close>, \<open>markerWidth\<close> and \<open>markerHeight\<close> are
  \<open>width\<close> and \<open>height\<close> themselves; otherwise they are the floats \<open>float(width) * scale\<close>
  and \<open>float(height) * scale\<close>; in both cases \<open>viewBox\<close> is the string made of \<open>minx\<close>,
  \<open>-maxy\<close>, \<open>width\<close> and \<open>height\<close> separated by blanks, and \<open>orient\<close> is the argument
  (\<open>'auto'\<close> when omitted).
\<close>

theorem Marker_computed_attributes:
  assumes "returned (Marker_init fo h minx miny maxx maxy scale orient [])"
  shows "\<exists>width height neg_maxy.
           py_sub fo maxx minx = Inr width \<and>
           py_sub fo maxy miny = Inr height \<and>
           py_neg fo maxy = Inr neg_maxy \<and>
           (py_eq fo (arg_or (PyInt 1) scale) (PyInt 1) \<longrightarrow>
              stored (Marker_init fo h minx miny maxx maxy scale orient []) ''markerWidth''
                = Some width \<and>
              stored (Marker_init fo h minx miny maxx maxy scale orient []) ''markerHeight''
                = Some height) \<and>
           (\<not> py_eq fo (arg_or (PyInt 1) scale) (PyInt 1) \<longrightarrow>
              (\<exists>x y. py_float fo width = Inr (PyFloat x) \<and>
                     py_mul fo (PyFloat x) (arg_or (PyInt 1) scale) = Inr (PyFloat y) \<and>
                     stored (Marker_init fo h minx miny maxx maxy scale orient []) ''markerWidth''
                       = Some (PyFloat y)) \<and>
              (\<exists>x y. py_float fo height = Inr (PyFloat x) \<and>
                     py_mul fo (PyFloat x) (arg_or (PyInt 1) scale) = Inr (PyFloat y) \<and>
                     stored (Marker_init fo h minx miny maxx maxy scale orient []) ''markerHeight''
                       = Some (PyFloat y))) \<and>
           stored (Marker_init fo h minx miny maxx maxy scale orient []) ''viewBox''
             = Some (PyStr (format4 fo minx neg_maxy width height)) \<and>
           stored (Marker_init fo h minx miny maxx maxy scale orient []) ''orient''
             = Some (arg_or (PyStr ''auto'') orient)"
proof -
  from Marker_stored [OF assms] obtain width height markerWidth markerHeight neg_maxy where
    c: "py_sub fo maxx minx = Inr width" "py_sub fo maxy miny = Inr height"
       "py_neg fo maxy = Inr neg_maxy" and
    w: "marker_size fo width (arg_or (PyInt 1) scale) = Inr markerWidth" and
    h: "marker_size fo height (arg_or (PyInt 1) scale) = Inr markerHeight" and
    s: "\<forall>k. stored (Marker_init fo h minx miny maxx maxy scale orient []) k
            = map_of (dict_display
                       [(''markerWidth'', markerWidth), (''markerHeight'', markerHeight),
                        (''viewBox'', PyStr (format4 fo minx neg_maxy width height)),
                        (''orient'', arg_or (PyStr ''auto'') orient)] []) k"
    by blast
  have sw: "stored (Marker_init fo h minx miny maxx maxy scale orient []) ''markerWidth''
              = Some markerWidth"
    and sh: "stored (Marker_init fo h minx miny maxx maxy scale orient []) ''markerHeight''
              = Some markerHeight"
    and sv: "stored (Marker_init fo h minx miny maxx maxy scale orient []) ''viewBox''
              = Some (PyStr (format4 fo minx neg_maxy width height))"
    and so: "stored (Marker_init fo h minx miny maxx maxy scale orient []) ''orient''
              = Some (arg_or (PyStr ''auto'') orient)"
    by (simp_all add: s)
  note mw = marker_size_cases [OF w]
  note mh = marker_size_cases [OF h]
  have one: "py_eq fo (arg_or (PyInt 1) scale) (PyInt 1) \<longrightarrow>
              stored (Marker_init fo h minx miny maxx maxy scale orient []) ''markerWidth''
                = Some width \<and>
              stored (Marker_init fo h minx miny maxx maxy scale orient []) ''markerHeight''
                = Some height"
    using mw mh by (simp add: sw sh)
  have other: "\<not> py_eq fo (arg_or (PyInt 1) scale) (PyInt 1) \<longrightarrow>
              (\<exists>x y. py_float fo width = Inr (PyFloat x) \<and>
                     py_mul fo (PyFloat x) (arg_or (PyInt 1) scale) = Inr (PyFloat y) \<and>
                     stored (Marker_init fo h minx miny maxx maxy scale orient []) ''markerWidth''
                       = Some (PyFloat y)) \<and>
              (\<exists>x y. py_float fo height = Inr (PyFloat x) \<and>
                     py_mul fo (PyFloat x) (arg_or (PyInt 1) scale) = Inr (PyFloat y) \<and>
                     stored (Marker_init fo h minx miny maxx maxy scale orient []) ''markerHeight''
                       = Some (PyFloat y))"
    using mw mh unfolding sw sh by blast
  from c one other sv so show ?thesis by blast
qed

text \<open>
  The theorem of C6 at the spec's examples: \<open>Marker(0, 0, 10, 20, scale=2)\<close> has
  \<open>markerWidth=20.0\<close>, \<open>markerHeight=40.0\<close>, \<open>viewBox='0 -20 10 20'\<close>, and
  \<open>Marker(0, 0, 10, 20, scale=1)\<close> has the integers \<open>markerWidth=10\<close>, \<open>markerHeight=20\<close>
  and the same \<open>viewBox\<close>.
\<close>

theorem Marker_computed_attributes_witness:
  "returned (Marker_init exact_ops [] (PyInt 0) (PyInt 0) (PyInt 10) (PyInt 20)
               (Some (PyInt 2)) None []) \<and>
   \<not> py_eq exact_ops (PyInt 2) (PyInt 1) \<and>
   stored (Marker_init exact_ops [] (PyInt 0) (PyInt 0) (PyInt 10) (PyInt 20)
             (Some (PyInt 2)) None []) ''markerWidth'' = Some (PyFloat 20) \<and>
   stored (Marker_init exact_ops [] (PyInt 0) (PyInt 0) (PyInt 10) (PyInt 20)
             (Some (PyInt 2)) None []) ''markerHeight'' = Some (PyFloat 40) \<and>
   stored (Marker_init exact_ops [] (PyInt 0) (PyInt 0) (PyInt 10) (PyInt 20)
             (Some (PyInt 2)) None []) ''viewBox'' = Some (PyStr ''0 -20 10 20'') \<and>
   returned (Marker_init exact_ops [] (PyInt 0) (PyInt 0) (PyInt 10) (PyInt 20)
               (Some (PyInt 1)) None []) \<and>
   py_eq exact_ops (PyInt 1) (PyInt 1) \<and>
   stored (Marker_init exact_ops [] (PyInt 0) (PyInt 0) (PyInt 10) (PyInt 20)
             (Some (PyInt 1)) None []) ''markerWidth'' = Some (PyInt 10) \<and>
   stored (Marker_init exact_ops [] (PyInt 0) (PyInt 0) (PyInt 10) (PyInt 20)
             (Some (PyInt 1)) None []) ''markerHeight'' = Some (PyInt 20) \<and>
   stored (Marker_init exact_ops [] (PyInt 0) (PyInt 0) (PyInt 10) (PyInt 20)
             (Some (PyInt 1)) None []) ''viewBox'' = Some (PyStr ''0 -20 10 20'') \<and>
   stored (Marker_init exact_ops [] (PyInt 0) (PyInt 0) (PyInt 10) (PyInt 20)
             (Some (PyInt 1)) None []) ''orient'' = Some (PyStr ''auto'')"
proof -
  have two: "Marker_init exact_ops [] (PyInt 0) (PyInt 0) (PyInt 10) (PyInt 20)
               (Some (PyInt 2)) None []
     = Inr (0, [\<lparr>cls_of = Marker, inst_TAG_NAME = None,
                  args = [(''markerWidth'', PyFloat 20), (''markerHeight'', PyFloat 40),
                          (''viewBox'', PyStr ''0 -20 10 20''), (''orient'', PyStr ''auto'')],
                  children = []\<rparr>])"
    by code_simp
  have one: "Marker_init exact_ops [] (PyInt 0) (PyInt 0) (PyInt 10) (PyInt 20)
               (Some (PyInt 1)) None []
     = Inr (0, [\<lparr>cls_of = Marker, inst_TAG_NAME = None,
                  args = [(''markerWidth'', PyInt 10), (''markerHeight'', PyInt 20),
                          (''viewBox'', PyStr ''0 -20 10 20''), (''orient'', PyStr ''auto'')],
                  children = []\<rparr>])"
    by code_simp
  have r2: "returned (Marker_init exact_ops [] (PyInt 0) (PyInt 0) (PyInt 10) (PyInt 20)
               (Some (PyInt 2)) None [])"
    and r1: "returned (Marker_init exact_ops [] (PyInt 0) (PyInt 0) (PyInt 10) (PyInt 20)
               (Some (PyInt 1)) None [])"
    by (simp_all add: two one returned_def)
  have e: "\<not> py_eq exact_ops (PyInt 2) (PyInt 1)" "py_eq exact_ops (PyInt 1) (PyInt 1)"
    by (simp_all add: py_eq_def)
  show ?thesis
    using Marker_computed_attributes [OF r2] Marker_computed_attributes [OF r1] e
    by (simp add: two one returned_def stored_def attr_def lookup_def)
qed

text \<open>
  C7. In a Marker every extra keyword argument of the caller is stored under its name,
  also when the name is \<open>markerWidth\<close>, \<open>markerHeight\<close>, \<open>viewBox\<close> or \<open>orient\<close>; a name the
  caller did not pass keeps the computed value, the one the same call without extra
  keyword arguments stores. (\<open>kwargs\<close> is a Python dict: its keys are distinct.)
\<close>

theorem Marker_kwargs_override:
  assumes "distinct (map fst kwargs)"
    and "returned (Marker_init fo h minx miny maxx maxy scale orient kwargs)"
  shows "stored (Marker_init fo h minx miny maxx maxy scale orient kwargs) k
           = (case map_of kwargs k of
                Some v \<Rightarrow> Some v
              | None \<Rightarrow> stored (Marker_init fo h minx miny maxx maxy scale orient []) k)"
proof -
  from assms(2) have r0: "returned (Marker_init fo h minx miny maxx maxy scale orient [])"
    by (simp add: Marker_returned_any_kwargs [of fo h minx miny maxx maxy scale orient "[]" kwargs])
  from Marker_stored [OF assms(2)] obtain width height markerWidth markerHeight neg_maxy where
    c: "py_sub fo maxx minx = Inr width" "py_sub fo maxy miny = Inr height"
       "marker_size fo width (arg_or (PyInt 1) scale) = Inr markerWidth"
       "marker_size fo height (arg_or (PyInt 1) scale) = Inr markerHeight"
       "py_neg fo maxy = Inr neg_maxy" and
    s: "\<forall>k. stored (Marker_init fo h minx miny maxx maxy scale orient kwargs) k
            = map_of (dict_display
                       [(''markerWidth'', markerWidth), (''markerHeight'', markerHeight),
                        (''viewBox'', PyStr (format4 fo minx neg_maxy width height)),
                        (''orient'', arg_or (PyStr ''auto'') orient)] kwargs) k"
    by blast
  from Marker_stored [OF r0] c have
    s0: "\<forall>k. stored (Marker_init fo h minx miny maxx maxy scale orient []) k
            = map_of (dict_display
                       [(''markerWidth'', markerWidth), (''markerHeight'', markerHeight),
                        (''viewBox'', PyStr (format4 fo minx neg_maxy width height)),
                        (''orient'', arg_or (PyStr ''auto'') orient)] []) k"
    by auto
  have A: "stored (Marker_init fo h minx miny maxx maxy scale orient kwargs) k
          = (case map_of kwargs k of Some v \<Rightarrow> Some v
             | None \<Rightarrow> map_of [(''markerWidth'', markerWidth), (''markerHeight'', markerHeight),
                        (''viewBox'', PyStr (format4 fo minx neg_maxy width height)),
                        (''orient'', arg_or (PyStr ''auto'') orient)] k)"
    using s map_of_dict_display [OF assms(1)] by simp
  have B: "stored (Marker_init fo h minx miny maxx maxy scale orient []) k
          = map_of [(''markerWidth'', markerWidth), (''markerHeight'', markerHeight),
                        (''viewBox'', PyStr (format4 fo minx neg_maxy width height)),
                        (''orient'', arg_or (PyStr ''auto'') orient)] k"
    using s0 by (simp only: dict_display.simps)
  show ?thesis by (simp only: A B)
qed

text \<open>
  The theorem of C7 at \<open>Marker(0, 0, 10, 20, orient=90, markerWidth=5, viewBox='0 0 1 1',
  id='m')\<close>: \<open>markerWidth\<close> and \<open>viewBox\<close> are the caller's, \<open>markerHeight\<close> is the computed
  \<open>20\<close>, \<open>orient\<close> is the caller's \<open>90\<close>.
\<close>

theorem Marker_kwargs_override_witness:
  "distinct (map fst [(''markerWidth'', PyInt 5 :: rat pyval), (''viewBox'', PyStr ''0 0 1 1''),
                      (''id'', PyStr ''m'')]) \<and>
   returned (Marker_init exact_ops [] (PyInt 0) (PyInt 0) (PyInt 10) (PyInt 20) None
               (Some (PyInt 90))
               [(''markerWidth'', PyInt 5), (''viewBox'', PyStr ''0 0 1 1''),
                (''id'', PyStr ''m'')]) \<and>
   stored (Marker_init exact_ops [] (PyInt 0) (PyInt 0) (PyInt 10) (PyInt 20) None
             (Some (PyInt 90))
             [(''markerWidth'', PyInt 5), (''viewBox'', PyStr ''0 0 1 1''),
              (''id'', PyStr ''m'')]) ''markerWidth'' = Some (PyInt 5) \<and>
   stored (Marker_init exact_ops [] (PyInt 0) (PyInt 0) (PyInt 10) (PyInt 20) None
             (Some (PyInt 90))
             [(''markerWidth'', PyInt 5), (''viewBox'', PyStr ''0 0 1 1''),
              (''id'', PyStr ''m'')]) ''viewBox'' = Some (PyStr ''0 0 1 1'') \<and>
   stored (Marker_init exact_ops [] (PyInt 0) (PyInt 0) (PyInt 10) (PyInt 20) None
             (Some (PyInt 90))
             [(''markerWidth'', PyInt 5), (''viewBox'', PyStr ''0 0 1 1''),
              (''id'', PyStr ''m'')]) ''markerHeight'' = Some (PyInt 20) \<and>
   stored (Marker_init exact_ops [] (PyInt 0) (PyInt 0) (PyInt 10) (PyInt 20) None
             (Some (PyInt 90))
             [(''markerWidth'', PyInt 5), (''viewBox'', PyStr ''0 0 1 1''),
              (''id'', PyStr ''m'')]) ''orient'' = Some (PyInt 90)"
proof -
  have d: "distinct (map fst [(''markerWidth'', PyInt 5 :: rat pyval),
             (''viewBox'', PyStr ''0 0 1 1''), (''id'', PyStr ''m'')])"
    by simp
  have m: "Marker_init exact_ops [] (PyInt 0) (PyInt 0) (PyInt 10) (PyInt 20) None
               (Some (PyInt 90))
               [(''markerWidth'', PyInt 5), (''viewBox'', PyStr ''0 0 1 1''),
                (''id'', PyStr ''m'')]
     = Inr (0, [\<lparr>cls_of = Marker, inst_TAG_NAME = None,
                  args = [(''markerWidth'', PyInt 5), (''markerHeight'', PyInt 20),
                          (''viewBox'', PyStr ''0 0 1 1''), (''orient'', PyInt 90),
                          (''id'', PyStr ''m'')],
                  children = []\<rparr>])"
    by code_simp
  have m0: "Marker_init exact_ops [] (PyInt 0) (PyInt 0) (PyInt 10) (PyInt 20) None
               (Some (PyInt 90)) []
     = Inr (0, [\<lparr>cls_of = Marker, inst_TAG_NAME = None,
                  args = [(''markerWidth'', PyInt 10), (''markerHeight'', PyInt 20),
                          (''viewBox'', PyStr ''0 -20 10 20''), (''orient'', PyInt 90)],
                  children = []\<rparr>])"
    by code_simp
  have r: "returned (Marker_init exact_ops [] (PyInt 0) (PyInt 0) (PyInt 10) (PyInt 20) None
               (Some (PyInt 90))
               [(''markerWidth'', PyInt 5), (''viewBox'', PyStr ''0 0 1 1''),
                (''id'', PyStr ''m'')])"
    by (simp add: m returned_def)
  note o = Marker_kwargs_override [OF d r]
  show ?thesis
    using d r o [of "''markerWidth''"] o [of "''viewBox''"] o [of "''markerHeight''"]
      o [of "''orient''"]
    by (simp add: m0 stored_def attr_def lookup_def)
qed

section \<open>The claims about \<open>FilterItem\<close> and \<open>get_svg_defs\<close>\<close>

text \<open>
  C8. \<open>FilterItem(tag_name, **attrs)\<close> is the element the base constructor builds from
  \<open>attrs\<close>, unchanged but for its tag: \<open>self.TAG_NAME\<close> is \<open>tag_name\<close>, whatever the class
  default, and every attribute of \<open>attrs\<close> is stored as passed.
\<close>

theorem FilterItem_tag_and_attributes:
  assumes "FilterItem_init h tag_name kw = (a, h')"
  shows "TAG_NAME base_tag h' a = Some tag_name \<and>
         (\<forall>k. attr h' a k = map_of kw k) \<and>
         (\<exists>h1 e. DrawingParentElement_init h FilterItem kw = (a, h1) \<and>
                 lookup h1 a = Some e \<and> cls_of e = FilterItem \<and> args e = kw \<and>
                 TAG_NAME base_tag h1 a = Some base_tag \<and>
                 h' = h1[a := e\<lparr>inst_TAG_NAME := Some tag_name\<rparr>])"
proof -
  let ?e = "\<lparr>cls_of = FilterItem, inst_TAG_NAME = None, args = kw, children = []\<rparr>"
  have base: "DrawingParentElement_init h FilterItem kw = (length h, h @ [?e])"
    by (simp add: DrawingParentElement_init_def)
  have l1: "lookup (h @ [?e]) (length h) = Some ?e"
    by (simp add: lookup_def)
  from assms have a: "a = length h"
    and h': "h' = (h @ [?e])[length h := ?e\<lparr>inst_TAG_NAME := Some tag_name\<rparr>]"
    by (auto simp: FilterItem_init_def base l1)
  have l2: "lookup h' a = Some (?e\<lparr>inst_TAG_NAME := Some tag_name\<rparr>)"
    by (simp add: a h' lookup_def)
  have "TAG_NAME base_tag h' a = Some tag_name"
    by (simp add: TAG_NAME_def l2)
  moreover have "\<forall>k. attr h' a k = map_of kw k"
    by (simp add: attr_def l2)
  moreover have "TAG_NAME base_tag (h @ [?e]) a = Some base_tag"
    by (simp add: TAG_NAME_def a l1)
  ultimately show ?thesis
    using base l1 h' a by auto
qed

text \<open>
  The theorem of C8 at the spec's example \<open>FilterItem('feGaussianBlur', stdDeviation=3)\<close>.
\<close>

theorem FilterItem_tag_and_attributes_witness:
  "FilterItem_init [] (PyStr ''feGaussianBlur'') [(''stdDeviation'', PyInt 3 :: rat pyval)]
     = (0, [\<lparr>cls_of = FilterItem, inst_TAG_NAME = Some (PyStr ''feGaussianBlur''),
              args = [(''stdDeviation'', PyInt 3)], children = []\<rparr>]) \<and>
   TAG_NAME (PyStr ''_'')
     [\<lparr>cls_of = FilterItem, inst_TAG_NAME = Some (PyStr ''feGaussianBlur''),
        args = [(''stdDeviation'', PyInt 3 :: rat pyval)], children = []\<rparr>] 0
     = Some (PyStr ''feGaussianBlur'') \<and>
   attr [\<lparr>cls_of = FilterItem, inst_TAG_NAME = Some (PyStr ''feGaussianBlur''),
           args = [(''stdDeviation'', PyInt 3 :: rat pyval)], children = []\<rparr>] 0
        ''stdDeviation''
     = Some (PyInt 3)"
proof -
  have c: "FilterItem_init [] (PyStr ''feGaussianBlur'') [(''stdDeviation'', PyInt 3 :: rat pyval)]
     = (0, [\<lparr>cls_of = FilterItem, inst_TAG_NAME = Some (PyStr ''feGaussianBlur''),
              args = [(''stdDeviation'', PyInt 3)], children = []\<rparr>])"
    by (simp add: FilterItem_init_def DrawingParentElement_init_def lookup_def)
  from FilterItem_tag_and_attributes [OF c, of "PyStr ''_''"] c show ?thesis
    by simp
qed

text \<open>
  C9. For a live instance of a class that derives from \<open>DrawingDef\<close> (LinearGradient,
  RadialGradient, ClipPath, Mask, Filter, Marker), \<open>get_svg_defs()\<close> is the one-element
  sequence holding the instance itself.
\<close>

theorem get_svg_defs_is_self:
  assumes "lookup h self = Some e"
    and "cls_of e \<in> {LinearGradient, RadialGradient, ClipPath, Mask, Filter, Marker}"
  shows "base_of (cls_of e) = DrawingDef \<and> get_svg_defs inherited h self = Some [self]"
proof -
  from assms(2) have b: "base_of (cls_of e) = DrawingDef"
    by auto
  with assms(1) show ?thesis
    by (simp add: get_svg_defs_def DrawingDef_get_svg_defs_def)
qed

text \<open>
  The theorem of C9 at \<open>LinearGradient(0, 0, 1, 1)\<close>, object 0 of its store.
\<close>

theorem get_svg_defs_is_self_witness:
  "lookup [example_linear] 0 = Some example_linear \<and>
   cls_of example_linear \<in> {LinearGradient, RadialGradient, ClipPath, Mask, Filter, Marker} \<and>
   base_of (cls_of example_linear) = DrawingDef \<and>
   get_svg_defs (\<lambda>h a. []) [example_linear] 0 = Some [0]"
proof -
  have l: "lookup [example_linear] 0 = Some example_linear"
    by (simp add: lookup_def)
  have c: "cls_of example_linear \<in> {LinearGradient, RadialGradient, ClipPath, Mask, Filter, Marker}"
    by (simp add: example_linear_def)
  from get_svg_defs_is_self [OF l c, of "\<lambda>h a. []"] l c show ?thesis
    by simp
qed

end
